theory Spec2Isabelle
  imports Complex_Main
begin

section \<open>Errors and numeric results\<close>

text \<open>
  The exceptions that the modelled Python code can raise, as values.  The first three are
  the built-in exceptions raised by attribute access on an unfitted estimator, by numpy
  boolean indexing with a mask of the wrong length, and by value checks.
  \<open>InvalidConfiguration\<close> and \<open>DataUnavailable\<close> are the error kinds of the
  specification, \<open>BackendError\<close> is any exception raised by a plotting primitive.
\<close>

datatype error =
    AttributeError
  | IndexError
  | ValueError
  | InvalidConfiguration
  | DataUnavailable
  | BackendError

text \<open>
  An accuracy score is a floating-point number, the quotient of two counts.  The quotient
  is kept as an exact rational.
\<close>

datatype score = Fraction rat

section \<open>The numpy, scipy and scikit-learn primitives used by the clusterer\<close>

text \<open>\<open>y[mask]\<close>: boolean indexing raises IndexError when the mask has another length.\<close>

definition bool_index :: "'a list \<Rightarrow> bool list \<Rightarrow> error + 'a list" where
  "bool_index ys msk =
     (if length ys \<noteq> length msk then Inl IndexError
      else Inr (map fst (filter snd (zip ys msk))))"

text \<open>
  \<open>scipy.stats.mode(a, keepdims=False).mode\<close>: the most frequent value, the smallest one
  when several are equally frequent; NaN (here \<open>None\<close>) on an empty array.
\<close>

definition mode :: "int list \<Rightarrow> int option" where
  "mode ys =
     (if ys = [] then None
      else Some (Min (set (filter (\<lambda>v. list_all (\<lambda>w. count_list ys w \<le> count_list ys v) ys) ys))))"

text \<open>
  The array of assigned labels has the dtype of the attribute \<^verbatim>\<open>labels_\<close>, a 32-bit signed integer;
  a value stored into it is reduced to that range.
\<close>

definition int32 :: "int \<Rightarrow> int" where
  "int32 v = (v + 2147483648) mod 4294967296 - 2147483648"

text \<open>\<open>labels[mask] = v\<close>: every position selected by the mask is overwritten.\<close>

definition mask_assign :: "int list \<Rightarrow> bool list \<Rightarrow> int \<Rightarrow> int list" where
  "mask_assign labels msk v = map (\<lambda>(l, m). if m then int32 v else l) (zip labels msk)"

text \<open>
  \<open>sklearn.metrics.accuracy_score\<close>: arrays of different lengths and arrays without
  samples are rejected with ValueError; otherwise the fraction of positions where the two
  arrays agree.
\<close>

definition matches :: "int list \<Rightarrow> int list \<Rightarrow> nat" where
  "matches y_true y_pred = length (filter (\<lambda>(a, b). a = b) (zip y_true y_pred))"

definition accuracy_score :: "int list \<Rightarrow> int list \<Rightarrow> error + score" where
  "accuracy_score y_true y_pred =
     (if length y_true \<noteq> length y_pred then Inl ValueError
      else if y_true = [] then Inl ValueError
      else Inr (Fraction (of_nat (matches y_true y_pred) / of_nat (length y_true))))"

section \<open>models/kmeans\_clusterer.py\<close>

text \<open>
  The wrapped KMeans estimator with its constructor arguments and its fitted state.  \<open>model_labels\<close> (the attribute \<^verbatim>\<open>labels_\<close>) is the cluster index of
  every point the estimator was fitted on and is absent before \<open>fit\<close>;
  \<open>nearest_center\<close> stands for the fitted cluster centres, through which \<open>predict\<close>
  assigns a cluster index to an arbitrary point.
\<close>

record 'p KMeans =
  n_clusters :: nat
  km_random_state :: int
  model_labels :: "nat list option"
  nearest_center :: "'p \<Rightarrow> nat"

text \<open>\<open>__init__\<close>: an estimator that has not been fitted (the centres are a placeholder).\<close>

definition KMeansClusterer_init :: "nat \<Rightarrow> int \<Rightarrow> 'p KMeans" where
  "KMeansClusterer_init k seed =
     \<lparr>n_clusters = k, km_random_state = seed, model_labels = None, nearest_center = (\<lambda>_. 0)\<rparr>"

text \<open>
  \<open>train\<close>: the fit itself is the library's; it is a parameter \<open>fit\<close> that returns
  the cluster index of every fitted point and the nearest-centre assignment, or raises.
\<close>

definition train ::
  "(nat \<Rightarrow> int \<Rightarrow> 'p list \<Rightarrow> error + nat list \<times> ('p \<Rightarrow> nat)) \<Rightarrow> 'p KMeans \<Rightarrow> 'p list
     \<Rightarrow> error + 'p KMeans" where
  "train fit km X =
     (case fit (n_clusters km) (km_random_state km) X of
        Inl e \<Rightarrow> Inl e
      | Inr (ls, nc) \<Rightarrow> Inr (km\<lparr>model_labels := Some ls, nearest_center := nc\<rparr>))"

text \<open>
  \<open>predict\<close>: an estimator that has not been fitted has nothing to predict with, and
  the library rejects an array without samples with ValueError.
\<close>

definition predict :: "'p KMeans \<Rightarrow> 'p list \<Rightarrow> error + nat list" where
  "predict km X =
     (case model_labels km of
        None \<Rightarrow> Inl AttributeError
      | Some _ \<Rightarrow> if X = [] then Inl ValueError else Inr (map (nearest_center km) X))"

text \<open>
  The loop \<open>for i in range(10)\<close> of \<open>accuracy\<close>, over the remaining indices, with the
  array \<open>labels\<close> as the state.
\<close>

fun vote_loop :: "nat list \<Rightarrow> int list \<Rightarrow> nat list \<Rightarrow> int list \<Rightarrow> error + int list" where
  "vote_loop cl y_train [] labels = Inr labels"
| "vote_loop cl y_train (i # rest) labels =
     (let msk = map (\<lambda>c. c = i) cl in
      if True \<in> set msk then
        (case bool_index y_train msk of
           Inl e \<Rightarrow> Inl e
         | Inr sel \<Rightarrow>
             (case mode sel of
                None \<Rightarrow> Inl ValueError
              | Some m \<Rightarrow> vote_loop cl y_train rest (mask_assign labels msk m)))
      else vote_loop cl y_train rest labels)"

definition assigned_labels :: "nat list \<Rightarrow> int list \<Rightarrow> error + int list" where
  "assigned_labels cl y_train = vote_loop cl y_train [0..<10] (replicate (length cl) 0)"

definition accuracy :: "'p KMeans \<Rightarrow> 'p list \<Rightarrow> int list \<Rightarrow> error + score" where
  "accuracy km X_train y_train =
     (case model_labels km of
        None \<Rightarrow> Inl AttributeError
      | Some cl \<Rightarrow>
          (case assigned_labels cl y_train of
             Inl e \<Rightarrow> Inl e
           | Inr labels \<Rightarrow> accuracy_score y_train labels))"

subsection \<open>The accuracy of the specification\<close>

text \<open>The true labels of the points that a clustering assigns to cluster \<open>c\<close>.\<close>

definition members :: "nat list \<Rightarrow> int list \<Rightarrow> nat \<Rightarrow> int list" where
  "members cl y c = map fst (filter (\<lambda>(l, k). k = c) (zip y cl))"

text \<open>
  The specification's ClusterLabelMap: the entry of a cluster is the majority true label
  among the given points assigned to it (no entry for a cluster without points).
\<close>

definition ClusterLabelMap :: "nat list \<Rightarrow> int list \<Rightarrow> nat \<Rightarrow> int option" where
  "ClusterLabelMap clusters true_labels c = mode (members clusters true_labels c)"

text \<open>
  The specification's accuracy, in its words: (a) build the ClusterLabelMap from the given
  points and labels, (b) map every given point's cluster index through it, (c) take the
  fraction of exact matches with the true labels.
\<close>

definition spec_accuracy :: "('p \<Rightarrow> nat) \<Rightarrow> 'p list \<Rightarrow> int list \<Rightarrow> score" where
  "spec_accuracy cluster_of points true_labels =
     (let clusters = map cluster_of points;
          predicted = map (ClusterLabelMap clusters true_labels) clusters
      in Fraction (of_nat (length (filter (\<lambda>(t, p). p = Some t) (zip true_labels predicted)))
                   / of_nat (length true_labels)))"

text \<open>
  A clustering is pure when the majority label of the cluster of every point is that
  point's true label.
\<close>

definition pure_clusters :: "nat list \<Rightarrow> int list \<Rightarrow> bool" where
  "pure_clusters cl y =
     (length y = length cl \<and> list_all (\<lambda>(l, c). mode (members cl y c) = Some l) (zip y cl))"

section \<open>models/logistic\_regression\_classifier.py\<close>

text \<open>
  The fitted state of the wrapped LogisticRegression estimator is the function from a point
  to its predicted label; it is absent before \<open>fit\<close>.  The optimisation is the
  library's: a parameter \<open>fit\<close> that returns that function or raises.  As for the
  clusterer, \<open>predict\<close> rejects an array without samples with ValueError.
\<close>

record 'p LogisticRegressionClassifier =
  lr_model :: "('p \<Rightarrow> int) option"

definition LogisticRegressionClassifier_init :: "'p LogisticRegressionClassifier" where
  "LogisticRegressionClassifier_init = \<lparr>lr_model = None\<rparr>"

definition classifier_train ::
  "('p list \<Rightarrow> int list \<Rightarrow> error + ('p \<Rightarrow> int)) \<Rightarrow> 'p LogisticRegressionClassifier
     \<Rightarrow> 'p list \<Rightarrow> int list \<Rightarrow> error + 'p LogisticRegressionClassifier" where
  "classifier_train fit clf X_train y_train =
     (case fit X_train y_train of
        Inl e \<Rightarrow> Inl e
      | Inr f \<Rightarrow> Inr (clf\<lparr>lr_model := Some f\<rparr>))"

definition classifier_predict :: "'p LogisticRegressionClassifier \<Rightarrow> 'p list \<Rightarrow> error + int list" where
  "classifier_predict clf X =
     (case lr_model clf of
        None \<Rightarrow> Inl AttributeError
      | Some f \<Rightarrow> if X = [] then Inl ValueError else Inr (map f X))"

definition classifier_accuracy ::
  "'p LogisticRegressionClassifier \<Rightarrow> 'p list \<Rightarrow> int list \<Rightarrow> error + score" where
  "classifier_accuracy clf X_test y_test =
     (case classifier_predict clf X_test of
        Inl e \<Rightarrow> Inl e
      | Inr y_pred \<Rightarrow> accuracy_score y_test y_pred)"

section \<open>The external collaborators\<close>

text \<open>
  Every call that leaves the repository and has an effect: fitting an estimator, a
  plotting primitive, writing the report.  The numeric arguments of the plotting
  primitives (grids, coordinates, styles) are not kept; a call keeps what identifies it.
\<close>

datatype call =
    Fit_classifier
  | Fit_clusterer
  | Predict_grid_classifier
  | Predict_grid_clusterer
  | Figure
  | Subplots
  | Set_facecolor
  | Contourf
  | Contour
  | Scatter_true_labels
  | Scatter_group nat
  | Scatter_cluster nat string
  | Plot_simplex nat "nat list"
  | Plot_closed nat "nat list"
  | Style_axes
  | Axis_arrows
  | Clear_ticks
  | Set_limits
  | Title
  | Xlabel
  | Ylabel
  | Grid
  | Legend
  | Savefig string
  | Show
  | Close
  | Write_report string

type_synonym vec = "rat list"

text \<open>The result of \<open>scipy.spatial.ConvexHull\<close>: index lists into the given points.\<close>

record qhull =
  simplices :: "nat list list"
  vertices :: "nat list"

text \<open>
  The source of a pseudo-random permutation: a generator seeded with an integer, or the
  process-wide generator in whatever state the run finds it.
\<close>

datatype rng_source = Seeded int | Global nat

text \<open>
  The library and the plotting backend, as parameters.  \<open>load_digits\<close> is the bundled
  dataset (or the failure to find it); \<open>project\<close> and \<open>standardize\<close> are the fitted
  projection and the scaling; \<open>permutation\<close> shuffles the indices below a bound;
  \<open>lr_fit\<close> and \<open>kmeans_fit\<close> are the two fits; \<open>convex_hull\<close> computes a hull or
  raises on degenerate input; \<open>backend\<close> tells for every effectful call whether it
  raises.
\<close>

record env =
  load_digits :: "error + vec list \<times> int list"
  project :: "nat \<Rightarrow> vec list \<Rightarrow> vec list"
  standardize :: "vec list \<Rightarrow> vec list"
  permutation :: "rng_source \<Rightarrow> nat \<Rightarrow> nat list"
  lr_fit :: "vec list \<Rightarrow> int list \<Rightarrow> error + (vec \<Rightarrow> int)"
  kmeans_fit :: "nat \<Rightarrow> int \<Rightarrow> vec list \<Rightarrow> error + nat list \<times> (vec \<Rightarrow> nat)"
  convex_hull :: "vec list \<Rightarrow> error + qhull"
  backend :: "call \<Rightarrow> error option"

section \<open>Effects: calls performed and figures left open\<close>

text \<open>
  What running a piece of code leaves behind: its value or the exception it raised, the
  calls it completed, in order, and the number of figures open in the plotting backend.
  A piece of code is a function from the number of figures open before it to its outcome.
\<close>

record 'a outcome =
  result :: "error + 'a"
  calls :: "call list"
  figures :: nat

type_synonym 'a action = "nat \<Rightarrow> 'a outcome"

definition ret :: "'a \<Rightarrow> 'a action" where
  "ret x n = \<lparr>result = Inr x, calls = [], figures = n\<rparr>"

definition raise :: "error \<Rightarrow> 'a action" where
  "raise e n = \<lparr>result = Inl e, calls = [], figures = n\<rparr>"

definition lift :: "error + 'a \<Rightarrow> 'a action" where
  "lift r n = \<lparr>result = r, calls = [], figures = n\<rparr>"

text \<open>Sequencing: an exception ends the sequence and keeps what was done before it.\<close>

definition and_then :: "'a action \<Rightarrow> ('a \<Rightarrow> 'b action) \<Rightarrow> 'b action" where
  "and_then act f n =
     (let r = act n in
      case result r of
        Inl e \<Rightarrow> \<lparr>result = Inl e, calls = calls r, figures = figures r\<rparr>
      | Inr x \<Rightarrow>
          (let r' = f x (figures r) in
           \<lparr>result = result r', calls = calls r @ calls r', figures = figures r'\<rparr>))"

text \<open>\<open>try: ... except: pass\<close> swallows the exception; what was done stays done.\<close>

definition try_except_pass :: "unit action \<Rightarrow> unit action" where
  "try_except_pass act n = (act n)\<lparr>result := Inr ()\<rparr>"

text \<open>
  Opening a figure (\<open>plt.figure\<close>, \<open>plt.subplots\<close>) adds one to the open figures,
  \<open>plt.close()\<close> closes the current one, if there is one; no other call touches them.
\<close>

fun effect :: "call \<Rightarrow> nat \<Rightarrow> nat" where
  "effect Figure n = Suc n"
| "effect Subplots n = Suc n"
| "effect Close n = n - 1"
| "effect _ n = n"

definition perform :: "env \<Rightarrow> call \<Rightarrow> unit action" where
  "perform lib c n =
     (case backend lib c of
        Some e \<Rightarrow> \<lparr>result = Inl e, calls = [], figures = n\<rparr>
      | None \<Rightarrow> \<lparr>result = Inr (), calls = [c], figures = effect c n\<rparr>)"

fun performs :: "env \<Rightarrow> call list \<Rightarrow> unit action" where
  "performs lib [] = ret ()"
| "performs lib (c # cs) = and_then (perform lib c) (\<lambda>_. performs lib cs)"

text \<open>A \<open>for\<close> loop whose body is an action.\<close>

fun for_each :: "'a list \<Rightarrow> ('a \<Rightarrow> unit action) \<Rightarrow> unit action" where
  "for_each [] body = ret ()"
| "for_each (x # xs) body = and_then (body x) (\<lambda>_. for_each xs body)"

text \<open>A pure library call that marks its completion in the list of calls.\<close>

definition logged :: "call \<Rightarrow> error + 'a \<Rightarrow> 'a action" where
  "logged c r n =
     \<lparr>result = r, calls = (case r of Inl _ \<Rightarrow> [] | Inr _ \<Rightarrow> [c]), figures = n\<rparr>"

section \<open>visualizer.py\<close>

text \<open>\<open>if output_path: plt.savefig(...) else: plt.show()\<close>; an empty path counts as none.\<close>

definition save_or_show :: "string option \<Rightarrow> call list" where
  "save_or_show output_path =
     (case output_path of
        None \<Rightarrow> [Show]
      | Some path \<Rightarrow> if path = [] then [Show] else [Savefig path])"

text \<open>
  \<open>X_scaled[:, 0].min()\<close> and its siblings: the minimum and maximum of a column raise
  ValueError on an array without rows.  (The array has the two columns the docstrings
  require.)
\<close>

definition column_bounds :: "vec list \<Rightarrow> error + unit" where
  "column_bounds X_scaled = (if X_scaled = [] then Inl ValueError else Inr ())"

definition plot_combined_boundaries ::
  "env \<Rightarrow> 'm \<Rightarrow> 'k \<Rightarrow> vec list \<Rightarrow> int list \<Rightarrow> string option \<Rightarrow> unit action" where
  "plot_combined_boundaries lib log_reg kmeans X_scaled y output_path =
     and_then (lift (column_bounds X_scaled)) (\<lambda>_.
       performs lib
         ([Predict_grid_classifier, Predict_grid_clusterer,
           Figure, Contourf, Contour, Scatter_true_labels, Title, Xlabel, Ylabel]
          @ save_or_show output_path @ [Close]))"

text \<open>\<open>np.unique\<close>: the distinct values in increasing order.\<close>

definition unique :: "nat list \<Rightarrow> nat list" where
  "unique xs = sort (remdups xs)"

definition scatter_group :: "env \<Rightarrow> vec list \<Rightarrow> nat list \<Rightarrow> nat \<Rightarrow> unit action" where
  "scatter_group lib X_scaled kmeans_labels cluster_id =
     and_then (lift (bool_index X_scaled (map (\<lambda>c. c = cluster_id) kmeans_labels))) (\<lambda>_.
       perform lib (Scatter_group cluster_id))"

definition plot_clusters_scatter ::
  "env \<Rightarrow> vec list \<Rightarrow> int list \<Rightarrow> nat list \<Rightarrow> string option \<Rightarrow> unit action" where
  "plot_clusters_scatter lib X_scaled y kmeans_labels output_path =
     and_then (perform lib Figure) (\<lambda>_.
     and_then (for_each (unique kmeans_labels) (scatter_group lib X_scaled kmeans_labels)) (\<lambda>_.
       performs lib
         ([Style_axes, Axis_arrows, Title, Xlabel, Ylabel, Grid, Legend]
          @ save_or_show output_path @ [Close])))"

text \<open>\<open>cluster_colors.get(cluster_id, '#999999')\<close>\<close>

definition cluster_color :: "nat \<Rightarrow> string" where
  "cluster_color cluster_id =
     (if cluster_id = 0 then ''#FF6B6B'' else if cluster_id = 1 then ''#4ECDC4'' else ''#999999'')"

text \<open>
  The body of the \<open>try\<close> block: the hull of the member points, one line per simplex, and
  the closed outline through the vertices, back to the first one.
\<close>

definition hull_outline :: "env \<Rightarrow> vec list \<Rightarrow> nat \<Rightarrow> unit action" where
  "hull_outline lib points cluster_id =
     and_then (lift (convex_hull lib points)) (\<lambda>h.
     and_then (performs lib (map (Plot_simplex cluster_id) (simplices h))) (\<lambda>_.
       case vertices h of
         [] \<Rightarrow> raise IndexError
       | v # vs \<Rightarrow> perform lib (Plot_closed cluster_id (v # vs @ [v]))))"

text \<open>The body of the loop over the first two clusters.\<close>

definition draw_cluster :: "env \<Rightarrow> vec list \<Rightarrow> nat list \<Rightarrow> nat \<Rightarrow> unit action" where
  "draw_cluster lib X_scaled kmeans_labels cluster_id =
     (let msk = map (\<lambda>c. c = cluster_id) kmeans_labels in
      and_then (lift (bool_index X_scaled msk)) (\<lambda>points.
      and_then (perform lib (Scatter_cluster cluster_id (cluster_color cluster_id))) (\<lambda>_.
        if 2 < length (filter id msk)
        then try_except_pass (hull_outline lib points cluster_id)
        else ret ())))"

definition plot_simple_clusters ::
  "env \<Rightarrow> vec list \<Rightarrow> int list \<Rightarrow> nat list \<Rightarrow> string option \<Rightarrow> unit action" where
  "plot_simple_clusters lib X_scaled y kmeans_labels output_path =
     and_then (performs lib [Subplots, Set_facecolor]) (\<lambda>_.
     and_then (for_each (take 2 (unique kmeans_labels)) (draw_cluster lib X_scaled kmeans_labels)) (\<lambda>_.
     and_then (performs lib [Style_axes, Axis_arrows, Clear_ticks]) (\<lambda>_.
     and_then (lift (column_bounds X_scaled)) (\<lambda>_.
       performs lib ([Set_limits] @ save_or_show output_path @ [Close])))))"

text \<open>The calls that draw a hull outline for a cluster.\<close>

fun outline_of :: "nat \<Rightarrow> call \<Rightarrow> bool" where
  "outline_of c (Plot_simplex k _) = (k = c)"
| "outline_of c (Plot_closed k _) = (k = c)"
| "outline_of c _ = False"

fun is_outline :: "call \<Rightarrow> bool" where
  "is_outline (Plot_simplex _ _) = True"
| "is_outline (Plot_closed _ _) = True"
| "is_outline _ = False"

section \<open>data\_loader.py\<close>

record DigitsDataLoader =
  n_components :: int
  test_size :: rat
  random_state :: int

definition DigitsDataLoader_init :: "int \<Rightarrow> rat \<Rightarrow> int \<Rightarrow> DigitsDataLoader" where
  "DigitsDataLoader_init k fraction seed =
     \<lparr>n_components = k, test_size = fraction, random_state = seed\<rparr>"

text \<open>The raw feature dimension: the length of the feature vectors.\<close>

definition feature_dim :: "vec list \<Rightarrow> nat" where
  "feature_dim X = (case X of [] \<Rightarrow> 0 | v # _ \<Rightarrow> length v)"

text \<open>
  Modelled from the spec: \<open>PCA(n_components).fit_transform\<close> is the library's and not
  part of the sources.  The specification's Feature Reducer rejects a component count
  below 1 or above the raw feature dimension with InvalidConfiguration; otherwise it
  returns the projection, which is a parameter.
\<close>

definition pca_fit_transform :: "(nat \<Rightarrow> vec list \<Rightarrow> vec list) \<Rightarrow> int \<Rightarrow> vec list \<Rightarrow> error + vec list" where
  "pca_fit_transform proj k X =
     (if k < 1 \<or> int (feature_dim X) < k then Inl InvalidConfiguration
      else Inr (proj (nat k) X))"

text \<open>
  Modelled from the spec: \<open>train_test_split\<close> is the library's and not part of the
  sources.  The specification's Split Stage is a seeded pseudo-random shuffle-then-cut.
  The shuffle is a parameter; the generator is the seeded one when a seed is passed and
  the process-wide one otherwise.  The test part is the fraction of the samples rounded
  up, taken from the front of the shuffled indices; the train part is the rest.
\<close>

definition split_indices ::
  "(rng_source \<Rightarrow> nat \<Rightarrow> nat list) \<Rightarrow> nat \<Rightarrow> rat \<Rightarrow> int option \<Rightarrow> nat \<Rightarrow> nat list \<times> nat list" where
  "split_indices perm n fraction seed g =
     (let n_test = nat \<lceil>fraction * of_nat n\<rceil>;
          shuffled = perm (case seed of Some s \<Rightarrow> Seeded s | None \<Rightarrow> Global g) n
      in (drop n_test shuffled, take n_test shuffled))"

text \<open>
  Modelled from the spec: the Split Stage requires a test fraction strictly between 0 and
  1 and fails with InvalidConfiguration otherwise.  Arrays of different lengths and an
  empty train part are rejected with ValueError, as the library does.
\<close>

definition train_test_split ::
  "(rng_source \<Rightarrow> nat \<Rightarrow> nat list) \<Rightarrow> 'a list \<Rightarrow> 'b list \<Rightarrow> rat \<Rightarrow> int option \<Rightarrow> nat
     \<Rightarrow> error + 'a list \<times> 'a list \<times> 'b list \<times> 'b list" where
  "train_test_split perm X y fraction seed g =
     (if length X \<noteq> length y then Inl ValueError
      else if \<not> (0 < fraction \<and> fraction < 1) then Inl InvalidConfiguration
      else if length X \<le> nat \<lceil>fraction * of_nat (length X)\<rceil> then Inl ValueError
      else
        (let (train, test) = split_indices perm (length X) fraction seed g
         in Inr (map (nth X) train, map (nth X) test, map (nth y) train, map (nth y) test)))"

text \<open>The call of lines 73 to 76: the split of the reduced dataset with the loader's settings.\<close>

definition split_stage ::
  "env \<Rightarrow> DigitsDataLoader \<Rightarrow> vec list \<Rightarrow> int list \<Rightarrow> nat
     \<Rightarrow> error + vec list \<times> vec list \<times> int list \<times> int list" where
  "split_stage lib loader X_scaled y g =
     train_test_split (permutation lib) X_scaled y (test_size loader) (Some (random_state loader)) g"

definition load_data ::
  "env \<Rightarrow> DigitsDataLoader \<Rightarrow> nat
     \<Rightarrow> error + vec list \<times> vec list \<times> int list \<times> int list \<times> vec list \<times> int list" where
  "load_data lib loader g =
     (case load_digits lib of
        Inl e \<Rightarrow> Inl e
      | Inr (X, y) \<Rightarrow>
          (case pca_fit_transform (project lib) (n_components loader) X of
             Inl e \<Rightarrow> Inl e
           | Inr X_reduced \<Rightarrow>
               (let X_scaled = standardize lib X_reduced in
                case split_stage lib loader X_scaled y g of
                  Inl e \<Rightarrow> Inl e
                | Inr (X_train, X_test, y_train, y_test) \<Rightarrow>
                    Inr (X_train, X_test, y_train, y_test, X_scaled, y))))"

section \<open>main.py\<close>

text \<open>
  The report keeps the numbers that the text file prints: the sample counts, the two
  accuracy scores and the path of the first chart.
\<close>

record report =
  total_samples :: nat
  train_samples :: nat
  test_samples :: nat
  acc_lr :: score
  acc_km :: score
  chart_path :: string

text \<open>
  The body of \<open>main\<close> for a given loader, process-wide generator state and timestamp.
  Creating the output directory and printing progress lines are left out.
\<close>

definition main_steps :: "env \<Rightarrow> DigitsDataLoader \<Rightarrow> nat \<Rightarrow> string \<Rightarrow> report action" where
  "main_steps lib loader g timestamp =
     (let chart_filename = ''output/classification_comparison_'' @ timestamp @ ''.png'';
          clusters_scatter_filename = ''output/clusters_scatter_'' @ timestamp @ ''.png'';
          clusters_simple_filename = ''output/clusters_simple_'' @ timestamp @ ''.png'';
          results_filename = ''output/results_'' @ timestamp @ ''.txt''
      in
      and_then (lift (load_data lib loader g)) (\<lambda>(X_train, X_test, y_train, y_test, X_scaled, y).
      and_then (logged Fit_classifier
                  (classifier_train (lr_fit lib) LogisticRegressionClassifier_init X_train y_train)) (\<lambda>log_reg.
      and_then (lift (classifier_accuracy log_reg X_test y_test)) (\<lambda>acc_lr'.
      and_then (logged Fit_clusterer
                  (train (kmeans_fit lib) (KMeansClusterer_init 10 42) X_train)) (\<lambda>kmeans.
      and_then (lift (accuracy kmeans X_train y_train)) (\<lambda>acc_km'.
      and_then (lift (predict kmeans X_scaled)) (\<lambda>kmeans_labels.
      and_then (plot_combined_boundaries lib log_reg kmeans X_scaled y (Some chart_filename)) (\<lambda>_.
      and_then (plot_clusters_scatter lib X_scaled y kmeans_labels (Some clusters_scatter_filename)) (\<lambda>_.
      and_then (plot_simple_clusters lib X_scaled y kmeans_labels (Some clusters_simple_filename)) (\<lambda>_.
      and_then (perform lib (Write_report results_filename)) (\<lambda>_.
        ret \<lparr>total_samples = length X_scaled, train_samples = length X_train,
             test_samples = length X_test, acc_lr = acc_lr', acc_km = acc_km',
             chart_path = chart_filename\<rparr>)))))))))))"

definition main :: "env \<Rightarrow> nat \<Rightarrow> string \<Rightarrow> report action" where
  "main lib g timestamp = main_steps lib (DigitsDataLoader_init 2 (3 / 10) 42) g timestamp"

section \<open>Two small environments\<close>

text \<open>
  A library in which every call succeeds, on a dataset of seven points in two groups, and
  the same library with a backend that cannot write image files.
\<close>

definition side :: "vec \<Rightarrow> nat" where
  "side v = (case v of [] \<Rightarrow> 0 | x # _ \<Rightarrow> if x < 2 then 0 else 1)"

definition quiet_env :: env where
  "quiet_env =
     \<lparr>load_digits = Inr ([[0, 0], [0, 1], [1, 0], [4, 4], [4, 5], [5, 4], [5, 5]], [0, 0, 0, 1, 1, 1, 1]),
      project = (\<lambda>k X. map (take k) X),
      standardize = (\<lambda>X. X),
      permutation = (\<lambda>_ n. rev [0..<n]),
      lr_fit = (\<lambda>X y. Inr (\<lambda>v. int (side v))),
      kmeans_fit = (\<lambda>k seed X. Inr (map side X, side)),
      convex_hull = (\<lambda>points. if length points < 3 then Inl ValueError
                     else Inr \<lparr>simplices = [[0, 1], [1, 2], [2, 0]], vertices = [0, 1, 2]\<rparr>),
      backend = (\<lambda>_. None)\<rparr>"

definition unwritable_env :: env where
  "unwritable_env = quiet_env\<lparr>backend := (\<lambda>c. case c of Savefig _ \<Rightarrow> Some BackendError | _ \<Rightarrow> None)\<rparr>"

section \<open>The clusterer's accuracy\<close>

subsection \<open>Auxiliary facts\<close>

lemma bool_index_members:
  "length y = length cl \<Longrightarrow> bool_index y (map (\<lambda>c. c = i) cl) = Inr (members cl y i)"
  unfolding bool_index_def members_def
  apply (simp add: zip_map2 filter_map comp_def case_prod_unfold)
  done

lemma members_nonempty: "length y = length cl \<Longrightarrow> i \<in> set cl \<Longrightarrow> members cl y i \<noteq> []"
  unfolding members_def
  apply (induction y cl rule: list_induct2) apply auto
  done

lemma mask_assign_eq:
  "mask_assign labels (map (\<lambda>c. c = i) cl) m = map (\<lambda>(l, c). if c = i then int32 m else l) (zip labels cl)"
  unfolding mask_assign_def
  by (simp add: zip_map2 case_prod_unfold)

lemma any_mask: "True \<in> set (map (\<lambda>c. c = i) cl) \<longleftrightarrow> i \<in> set cl"
  by auto

lemma mode_Some: "ys \<noteq> [] \<Longrightarrow> \<exists>m. mode ys = Some m"
  by (simp add: mode_def)

lemma length_mask_assign: "length (mask_assign labels (map f cl)  m) = min (length labels) (length cl)"
  by (simp add: mask_assign_def)

lemma vote_loop_eq:
  "length y = length cl \<Longrightarrow> length labels = length cl \<Longrightarrow>
   vote_loop cl y is labels =
     Inr (map (\<lambda>(l, c). if c \<in> set is then int32 (the (mode (members cl y c))) else l) (zip labels cl))"
proof (induction "is" arbitrary: labels)
  case Nil
  then show ?case by (simp add: map_fst_zip[unfolded fst_def] case_prod_unfold)
next
  case (Cons i rest)
  show ?case
  proof (cases "i \<in> set cl")
    case False
    then have "vote_loop cl y (i # rest) labels = vote_loop cl y rest labels"
      by (simp add: any_mask del: set_map)
    also have "\<dots> = Inr (map (\<lambda>(l, c). if c \<in> set rest then int32 (the (mode (members cl y c))) else l) (zip labels cl))"
      using Cons by simp
    also have "\<dots> = Inr (map (\<lambda>(l, c). if c \<in> set (i # rest) then int32 (the (mode (members cl y c))) else l) (zip labels cl))"
      using False by (auto dest: set_zip_rightD)
    finally show ?thesis .
  next
    case True
    obtain m where m: "mode (members cl y i) = Some m"
      using mode_Some[OF members_nonempty[OF Cons.prems(1) True]] by blast
    let ?labels' = "mask_assign labels (map (\<lambda>c. c = i) cl) m"
    have len: "length ?labels' = length cl"
      using Cons.prems by (simp add: length_mask_assign)
    have "vote_loop cl y (i # rest) labels = vote_loop cl y rest ?labels'"
      using True m by (simp add: any_mask bool_index_members[OF Cons.prems(1)] del: set_map)
    also have "\<dots> = Inr (map (\<lambda>(l, c). if c \<in> set rest then int32 (the (mode (members cl y c))) else l) (zip ?labels' cl))"
      using Cons.IH[OF Cons.prems(1) len] .
    also have "\<dots> = Inr (map (\<lambda>(l, c). if c \<in> set (i # rest) then int32 (the (mode (members cl y c))) else l) (zip labels cl))"
      using Cons.prems(2) m
      by (auto simp: mask_assign_eq list_eq_iff_nth_eq)
    finally show ?thesis .
  qed
qed

lemma assigned_labels_eq:
  assumes "length y = length cl"
  shows "assigned_labels cl y =
     Inr (map (\<lambda>c. if c < 10 then int32 (the (mode (members cl y c))) else 0) cl)"
proof -
  have "assigned_labels cl y =
     Inr (map (\<lambda>(l, c). if c \<in> set [0..<10] then int32 (the (mode (members cl y c))) else l)
            (zip (replicate (length cl) 0) cl))"
    unfolding assigned_labels_def by (rule vote_loop_eq[OF assms]) simp
  also have "map (\<lambda>(l, c). if c \<in> set [0..<10] then int32 (the (mode (members cl y c))) else l)
            (zip (replicate (length cl) 0) cl) =
      map (\<lambda>c. if c < 10 then int32 (the (mode (members cl y c))) else 0) cl"
    by (auto simp: list_eq_iff_nth_eq)
  finally show ?thesis .
qed

lemma vote_loop_length_mismatch:
  "length y \<noteq> length cl \<Longrightarrow> vote_loop cl y is labels = Inr labels' \<Longrightarrow> labels' = labels"
  by (induction "is" arbitrary: labels) (auto simp: bool_index_def Let_def split: if_splits)

lemma accuracy_Inr_lengths:
  assumes "model_labels km = Some cl" "accuracy km X y = Inr s"
  shows "length y = length cl"
proof (rule ccontr)
  assume ne: "length y \<noteq> length cl"
  from assms obtain labels where l: "assigned_labels cl y = Inr labels"
    and a: "accuracy_score y labels = Inr s"
    by (auto simp: accuracy_def split: sum.splits)
  from vote_loop_length_mismatch[OF ne l[unfolded assigned_labels_def]]
  have "length labels = length cl" by simp
  with a ne show False by (simp add: accuracy_score_def split: if_splits)
qed

lemma mode_in_set: "mode ys = Some m \<Longrightarrow> m \<in> set ys"
proof -
  assume a: "mode ys = Some m"
  then have ne: "ys \<noteq> []" by (auto simp: mode_def split: if_splits)
  let ?S = "set (filter (\<lambda>v. list_all (\<lambda>w. count_list ys w \<le> count_list ys v) ys) ys)"
  obtain v where v: "v \<in> set ys" "\<forall>w\<in>set ys. count_list ys w \<le> count_list ys v"
  proof -
    have "finite (count_list ys ` set ys)" "count_list ys ` set ys \<noteq> {}" using ne by auto
    then have "Max (count_list ys ` set ys) \<in> count_list ys ` set ys" by (rule Max_in)
    then obtain v where "v \<in> set ys" "count_list ys v = Max (count_list ys ` set ys)" by auto
    then show ?thesis using that[of v] by auto
  qed
  then have "?S \<noteq> {}" by (auto simp: list_all_iff)
  then have "Min ?S \<in> ?S" by (intro Min_in) auto
  with a ne show ?thesis by (auto simp: mode_def)
qed

lemma mode_const: "ys \<noteq> [] \<Longrightarrow> \<forall>w\<in>set ys. w = v \<Longrightarrow> mode ys = Some v"
proof -
  assume ne: "ys \<noteq> []" and c: "\<forall>w\<in>set ys. w = v"
  obtain m where m: "mode ys = Some m" using mode_Some[OF ne] by blast
  from mode_in_set[OF m] c have "m = v" by blast
  with m show ?thesis by simp
qed

lemma matches_all:
  "length a = length b \<Longrightarrow> matches a b = length a \<Longrightarrow> a = b"
proof (induction a b rule: list_induct2)
  case Nil
  then show ?case by simp
next
  case (Cons x xs y ys)
  have le: "matches xs ys \<le> length xs"
    unfolding matches_def by (metis length_filter_le length_zip min.idem Cons.hyps)
  from Cons.prems le have "x = y \<and> matches xs ys = length xs"
    by (auto simp: matches_def split: if_splits)
  with Cons.IH show ?case by simp
qed

lemma int32_id: "- 2147483648 \<le> v \<Longrightarrow> v < 2147483648 \<Longrightarrow> int32 v = v"
  by (simp add: int32_def)

lemma members_nth:
  "length y = length cl \<Longrightarrow> m \<in> set (members cl y c) \<longleftrightarrow> (\<exists>k<length cl. cl ! k = c \<and> y ! k = m)"
  unfolding members_def
  by (force simp: in_set_zip image_iff)

subsection \<open>Points of clusters that are not voted on\<close>

text \<open>
  C9: the array of predicted labels starts as zeros and the loop votes on the cluster
  indices 0 to 9 only.  When the true labels are as many as the fitted points, the loop
  ends without an exception, the score is the accuracy of the array it leaves, and every
  point whose cluster index is 10 or more has the predicted label 0 there.
\<close>

theorem unvoted_cluster_labelled_zero:
  assumes "model_labels km = Some cl" and "length y_train = length cl"
  shows "\<exists>labels. assigned_labels cl y_train = Inr labels
           \<and> length labels = length cl
           \<and> accuracy km X_train y_train = accuracy_score y_train labels
           \<and> (\<forall>j<length cl. 10 \<le> cl ! j \<longrightarrow> labels ! j = 0)"
proof -
  let ?labels = "map (\<lambda>c. if c < 10 then int32 (the (mode (members cl y_train c))) else 0) cl"
  have a: "assigned_labels cl y_train = Inr ?labels"
    by (rule assigned_labels_eq[OF assms(2)])
  have b: "accuracy km X_train y_train = accuracy_score y_train ?labels"
    by (simp add: accuracy_def assms(1) a)
  have c: "\<forall>j<length cl. 10 \<le> cl ! j \<longrightarrow> ?labels ! j = 0"
    by simp
  from a b c show ?thesis by (intro exI[of _ ?labels]) simp
qed

theorem unvoted_cluster_labelled_zero_witness:
  "model_labels \<lparr>n_clusters = 10, km_random_state = 42, model_labels = Some [0, 11, 0], nearest_center = (\<lambda>p::nat. p)\<rparr> = Some [0, 11, 0]
   \<and> length [3, 7, 3 :: int] = length [0, 11, 0 :: nat]
   \<and> (\<exists>labels. assigned_labels [0, 11, 0] [3, 7, 3] = Inr labels
           \<and> length labels = length [0, 11, 0 :: nat]
           \<and> accuracy \<lparr>n_clusters = 10, km_random_state = 42, model_labels = Some [0, 11, 0], nearest_center = (\<lambda>p::nat. p)\<rparr> [0, 11, 0] [3, 7, 3]
               = accuracy_score [3, 7, 3] labels
           \<and> (\<forall>j<length [0, 11, 0 :: nat]. 10 \<le> [0, 11, 0 :: nat] ! j \<longrightarrow> labels ! j = 0))"
  using unvoted_cluster_labelled_zero
    [of "\<lparr>n_clusters = 10, km_random_state = 42, model_labels = Some [0, 11, 0], nearest_center = (\<lambda>p::nat. p)\<rparr>" "[0, 11, 0]" "[3, 7, 3]" "[0, 11, 0]"]
  by simp

subsection \<open>A perfect score needs pure clusters\<close>

text \<open>
  C2: when the accuracy of the clusterer is 1.0, the clustering is pure: the majority
  label of the cluster of every point is the true label of that point.
\<close>

theorem accuracy_one_only_if_pure:
  assumes fit: "model_labels km = Some cl"
    and one: "accuracy km X_train y_train = Inr (Fraction 1)"
  shows "pure_clusters cl y_train"
proof -
  have len: "length y_train = length cl"
    by (rule accuracy_Inr_lengths[OF fit one])
  let ?labels = "map (\<lambda>c. if c < 10 then int32 (the (mode (members cl y_train c))) else 0) cl"
  have acc: "accuracy_score y_train ?labels = Inr (Fraction 1)"
    using one by (simp add: accuracy_def fit assigned_labels_eq[OF len])
  then have ne: "y_train \<noteq> []"
    by (cases "y_train = []") (simp_all add: accuracy_score_def split: if_splits)
  then have pos: "0 < length y_train" by simp
  have "accuracy_score y_train ?labels =
      Inr (Fraction (of_nat (matches y_train ?labels) / of_nat (length y_train)))"
    using ne len unfolding accuracy_score_def by simp
  with acc have "(of_nat (matches y_train ?labels) :: rat) / of_nat (length y_train) = 1"
    by (simp only: sum.inject score.inject)
  with pos have "(of_nat (matches y_train ?labels) :: rat) = of_nat (length y_train)"
    by simp
  then have "matches y_train ?labels = length y_train"
    by (simp only: of_nat_eq_iff)
  then have eq: "y_train = ?labels"
    by (intro matches_all) (simp_all add: len)
  have nth: "y_train ! j = (if cl ! j < 10 then int32 (the (mode (members cl y_train (cl ! j)))) else 0)"
    if "j < length cl" for j
  proof -
    have "y_train ! j = ?labels ! j" using eq by simp
    then show ?thesis using that by simp
  qed
  have "mode (members cl y_train (cl ! j)) = Some (y_train ! j)" if j: "j < length cl" for j
  proof (cases "cl ! j < 10")
    case True
    have "members cl y_train (cl ! j) \<noteq> []"
      using members_nonempty[OF len] j by simp
    then obtain m where m: "mode (members cl y_train (cl ! j)) = Some m"
      using mode_Some by blast
    from mode_in_set[OF m] obtain k where k: "k < length cl" "cl ! k = cl ! j" "y_train ! k = m"
      using members_nth[OF len] by blast
    from nth[OF k(1)] k True m have "m = int32 m" by simp
    with nth[OF j] True m show ?thesis by simp
  next
    case False
    have ne': "members cl y_train (cl ! j) \<noteq> []"
      using members_nonempty[OF len] j by simp
    have "\<forall>w\<in>set (members cl y_train (cl ! j)). w = 0"
    proof
      fix w assume "w \<in> set (members cl y_train (cl ! j))"
      then obtain k where k: "k < length cl" "cl ! k = cl ! j" "y_train ! k = w"
        using members_nth[OF len] by blast
      with nth[OF k(1)] False show "w = 0" by simp
    qed
    from mode_const[OF ne' this] nth[OF j] False show ?thesis by simp
  qed
  then have "list_all (\<lambda>(l, c). mode (members cl y_train c) = Some l) (zip y_train cl)"
    by (auto simp: list_all_length len)
  with len show ?thesis by (simp add: pure_clusters_def)
qed

theorem accuracy_one_only_if_pure_witness:
  "model_labels \<lparr>n_clusters = 10, km_random_state = 42, model_labels = Some [0, 1, 0], nearest_center = (\<lambda>p::nat. p)\<rparr> = Some [0, 1, 0]
   \<and> accuracy \<lparr>n_clusters = 10, km_random_state = 42, model_labels = Some [0, 1, 0], nearest_center = (\<lambda>p::nat. p)\<rparr> [0, 1, 0] [3, 7, 3]
       = Inr (Fraction 1)
   \<and> pure_clusters [0, 1, 0] [3, 7, 3]"
proof -
  have a: "accuracy \<lparr>n_clusters = 10, km_random_state = 42, model_labels = Some [0, 1, 0], nearest_center = (\<lambda>p::nat. p)\<rparr> [0, 1, 0] [3, 7, 3]
       = Inr (Fraction 1)"
    by code_simp
  show ?thesis
    using a accuracy_one_only_if_pure
      [of "\<lparr>n_clusters = 10, km_random_state = 42, model_labels = Some [0, 1, 0], nearest_center = (\<lambda>p::nat. p)\<rparr>" "[0, 1, 0]" "[0, 1, 0]" "[3, 7, 3]"]
    by simp
qed

subsection \<open>The score against the specification's computation\<close>

lemma members_subset: "set (members cl y c) \<subseteq> set y"
  unfolding members_def by (auto dest: set_zip_leftD)

lemma matches_map_Some:
  "length (filter (\<lambda>(t, p). p = Some t) (zip y (map Some labels))) = matches y labels"
  unfolding matches_def
  by (simp add: zip_map2 filter_map comp_def case_prod_unfold eq_commute)

text \<open>
  C1, amended: for the points the clusterer was fitted on (the stored cluster indices are
  those of the given points), with as many true labels as points, at least one point,
  cluster indices 0 to 9 and labels that fit a 32-bit signed integer, \<open>accuracy\<close>
  returns the score of the specification: majority label per cluster, every point mapped
  through it, fraction of exact matches.
\<close>

theorem accuracy_on_fitted_points:
  assumes fit: "model_labels km = Some (map (nearest_center km) X)"
    and len: "length y = length X"
    and ne: "X \<noteq> []"
    and small: "list_all (\<lambda>x. nearest_center km x < 10) X"
    and range: "list_all (\<lambda>l. - 2147483648 \<le> l \<and> l < 2147483648) y"
  shows "accuracy km X y = Inr (spec_accuracy (nearest_center km) X y)"
proof -
  let ?cl = "map (nearest_center km) X"
  have len': "length y = length ?cl" using len by simp
  let ?labels = "map (\<lambda>c. if c < 10 then int32 (the (mode (members ?cl y c))) else 0) ?cl"
  let ?pred = "map (ClusterLabelMap ?cl y) ?cl"
  have pred: "?pred = map Some ?labels"
  proof (rule nth_equalityI)
    show "length ?pred = length (map Some ?labels)" by simp
  next
    fix j assume "j < length ?pred"
    then have j: "j < length ?cl" by simp
    have lt: "?cl ! j < 10"
      using small j by (simp add: list_all_length)
    have "members ?cl y (?cl ! j) \<noteq> []"
      using members_nonempty[OF len'] j by (metis nth_mem)
    then obtain m where m: "mode (members ?cl y (?cl ! j)) = Some m"
      using mode_Some by blast
    from mode_in_set[OF m] members_subset have "m \<in> set y" by blast
    with range have "int32 m = m"
      by (auto simp: list_all_iff intro: int32_id)
    with m lt j show "?pred ! j = map Some ?labels ! j"
      by (simp add: ClusterLabelMap_def)
  qed
  have "accuracy km X y = accuracy_score y ?labels"
    by (simp add: accuracy_def fit assigned_labels_eq[OF len'])
  also have "\<dots> = Inr (Fraction (of_nat (matches y ?labels) / of_nat (length y)))"
    using ne len unfolding accuracy_score_def by auto
  also have "\<dots> = Inr (spec_accuracy (nearest_center km) X y)"
    unfolding spec_accuracy_def Let_def pred matches_map_Some ..
  finally show ?thesis .
qed

theorem accuracy_on_fitted_points_witness:
  "model_labels \<lparr>n_clusters = 10, km_random_state = 42, model_labels = Some [0, 1, 0, 1], nearest_center = (\<lambda>p::nat. p mod 2)\<rparr>
     = Some (map (nearest_center \<lparr>n_clusters = 10, km_random_state = 42, model_labels = Some [0, 1, 0, 1], nearest_center = (\<lambda>p::nat. p mod 2)\<rparr>) [2, 5, 4, 7])
   \<and> length [3, 7, 3, 8 :: int] = length [2, 5, 4, 7 :: nat]
   \<and> [2, 5, 4, 7 :: nat] \<noteq> []
   \<and> list_all (\<lambda>x. nearest_center \<lparr>n_clusters = 10, km_random_state = 42, model_labels = Some [0, 1, 0, 1], nearest_center = (\<lambda>p::nat. p mod 2)\<rparr> x < 10) [2, 5, 4, 7]
   \<and> list_all (\<lambda>l. - 2147483648 \<le> l \<and> l < 2147483648) [3, 7, 3, 8 :: int]
   \<and> accuracy \<lparr>n_clusters = 10, km_random_state = 42, model_labels = Some [0, 1, 0, 1], nearest_center = (\<lambda>p::nat. p mod 2)\<rparr> [2, 5, 4, 7] [3, 7, 3, 8]
       = Inr (spec_accuracy (\<lambda>p::nat. p mod 2) [2, 5, 4, 7] [3, 7, 3, 8])
   \<and> spec_accuracy (\<lambda>p::nat. p mod 2) [2, 5, 4, 7] [3, 7, 3, 8] = Fraction (3 / 4)"
proof -
  have v: "spec_accuracy (\<lambda>p::nat. p mod 2) [2, 5, 4, 7] [3, 7, 3, 8] = Fraction (3 / 4)"
    by code_simp
  show ?thesis
    using v accuracy_on_fitted_points
      [of "\<lparr>n_clusters = 10, km_random_state = 42, model_labels = Some [0, 1, 0, 1], nearest_center = (\<lambda>p::nat. p mod 2)\<rparr>"
          "[2, 5, 4, 7]" "[3, 7, 3, 8]"]
    by simp
qed

text \<open>
  C1 as stated fails: \<open>accuracy\<close> never looks at the given points.  For a clusterer
  fitted on two points of different clusters and asked about two points of the same
  cluster, it returns 1 where the specification's computation gives 1/2.  With eleven
  clusters, the points of cluster 10 are predicted as 0, not as their majority label.
  A label beyond 32 bits is truncated when it is stored.
\<close>

theorem accuracy_spec_counterexample:
  "accuracy \<lparr>n_clusters = 10, km_random_state = 42, model_labels = Some [0, 1],
             nearest_center = (\<lambda>p::nat. p mod 2)\<rparr> [2, 4] [3, 4]
     = Inr (Fraction 1)
   \<and> spec_accuracy (\<lambda>p::nat. p mod 2) [2, 4] [3, 4] = Fraction (1 / 2)
   \<and> accuracy \<lparr>n_clusters = 11, km_random_state = 42, model_labels = Some [10, 10],
               nearest_center = (\<lambda>p::nat. p)\<rparr> [10, 10] [5, 5]
     = Inr (Fraction 0)
   \<and> spec_accuracy (\<lambda>p::nat. p) [10, 10] [5, 5] = Fraction 1
   \<and> accuracy \<lparr>n_clusters = 10, km_random_state = 42, model_labels = Some [0],
               nearest_center = (\<lambda>p::nat. p)\<rparr> [0] [4294967299]
     = Inr (Fraction 0)
   \<and> spec_accuracy (\<lambda>p::nat. p) [0] [4294967299] = Fraction 1"
  by code_simp

section \<open>The chart renderer\<close>

subsection \<open>Auxiliary facts about sequencing\<close>

lemma and_then_Inr:
  assumes "result (and_then act f n) = Inr x"
  obtains y where "result (act n) = Inr y" and "result (f y (figures (act n))) = Inr x"
    and "figures (and_then act f n) = figures (f y (figures (act n)))"
    and "calls (and_then act f n) = calls (act n) @ calls (f y (figures (act n)))"
  using assms by (auto simp: and_then_def Let_def split: sum.splits)

lemma figures_and_then:
  assumes "\<And>n. figures (act n) = n" and "\<And>x n. figures (f x n) = n"
  shows "figures (and_then act f n) = n"
  using assms by (simp add: and_then_def Let_def split: sum.splits)

lemma figures_simple [simp]:
  "figures (ret x n) = n" "figures (raise e n) = n" "figures (lift r n) = n"
  "figures (logged c r n) = n"
  by (simp_all add: ret_def raise_def lift_def logged_def)

lemma figures_try [simp]: "figures (try_except_pass act n) = figures (act n)"
  by (simp add: try_except_pass_def)

lemma figures_perform_neutral:
  "effect c n = n \<Longrightarrow> figures (perform lib c n) = n"
  by (simp add: perform_def split: option.splits)

lemma figures_performs_neutral:
  "list_all (\<lambda>c. \<forall>n. effect c n = n) cs \<Longrightarrow> figures (performs lib cs n) = n"
proof (induction cs arbitrary: n)
  case Nil
  then show ?case by simp
next
  case (Cons c cs)
  show ?case
    unfolding performs.simps
    apply (rule figures_and_then)
    using Cons by (simp_all add: figures_perform_neutral)
qed

lemma figures_for_each:
  assumes "\<And>x n. figures (body x n) = n"
  shows "figures (for_each xs body n) = n"
proof (induction xs arbitrary: n)
  case Nil
  then show ?case by simp
next
  case (Cons x xs)
  show ?case unfolding for_each.simps
    by (rule figures_and_then) (simp_all add: assms Cons)
qed

lemma performs_Inr:
  "result (performs lib cs n) = Inr u \<Longrightarrow>
     calls (performs lib cs n) = cs \<and> figures (performs lib cs n) = fold effect cs n"
proof (induction cs arbitrary: n)
  case Nil
  then show ?case by (simp add: ret_def)
next
  case (Cons c cs)
  from Cons.prems have p: "backend lib c = None"
    by (auto simp: and_then_def perform_def Let_def split: option.splits)
  then have pc: "perform lib c n = \<lparr>result = Inr (), calls = [c], figures = effect c n\<rparr>"
    by (simp add: perform_def)
  from Cons.prems pc have "result (performs lib cs (effect c n)) = Inr u"
    by (simp add: and_then_def Let_def)
  from Cons.IH[OF this] pc show ?case
    by (simp add: and_then_def Let_def)
qed

lemma figures_hull_outline: "figures (hull_outline lib points c n) = n"
  unfolding hull_outline_def
  apply (rule figures_and_then)
   apply simp
  apply (rule figures_and_then)
   apply (rule figures_performs_neutral)
   apply (simp add: list_all_iff)
  apply (simp split: list.splits add: figures_perform_neutral)
  done

lemma figures_draw_cluster: "figures (draw_cluster lib X labels c n) = n"
  unfolding draw_cluster_def Let_def
  apply (rule figures_and_then)
   apply simp
  apply (rule figures_and_then)
   apply (simp add: figures_perform_neutral)
  apply (simp add: figures_hull_outline)
  done

lemma figures_scatter_group: "figures (scatter_group lib X labels c n) = n"
  unfolding scatter_group_def
  by (rule figures_and_then) (simp_all add: figures_perform_neutral)

subsection \<open>Figures are closed on normal completion\<close>

declare performs.simps [simp del] for_each.simps [simp del]

lemma fold_effect_tail:
  "fold effect (save_or_show output_path @ [Close]) (Suc n) = n"
  by (simp add: save_or_show_def split: option.splits)

lemma performs_figures:
  "result (performs lib cs n) = Inr u \<Longrightarrow> figures (performs lib cs n) = fold effect cs n"
  using performs_Inr by blast

lemma combined_closes:
  assumes "result (plot_combined_boundaries lib log_reg kmeans X_scaled y output_path n) = Inr ()"
  shows "figures (plot_combined_boundaries lib log_reg kmeans X_scaled y output_path n) = n"
proof -
  let ?cs = "[Predict_grid_classifier, Predict_grid_clusterer,
           Figure, Contourf, Contour, Scatter_true_labels, Title, Xlabel, Ylabel]
          @ save_or_show output_path @ [Close]"
  from assms obtain u where
    r: "result (performs lib ?cs (figures (lift (column_bounds X_scaled) n))) = Inr ()"
    and f: "figures (plot_combined_boundaries lib log_reg kmeans X_scaled y output_path n)
            = figures (performs lib ?cs (figures (lift (column_bounds X_scaled) n)))"
    unfolding plot_combined_boundaries_def by (rule and_then_Inr) simp
  from r have r': "result (performs lib ?cs n) = Inr ()" by simp
  have "fold effect ?cs n = n"
    using fold_effect_tail[of output_path n] by simp
  with performs_figures[OF r'] f show ?thesis by simp
qed

lemma scatter_closes:
  assumes "result (plot_clusters_scatter lib X_scaled y kmeans_labels output_path n) = Inr ()"
  shows "figures (plot_clusters_scatter lib X_scaled y kmeans_labels output_path n) = n"
proof -
  let ?cs = "[Style_axes, Axis_arrows, Title, Xlabel, Ylabel, Grid, Legend]
          @ save_or_show output_path @ [Close]"
  let ?loop = "for_each (unique kmeans_labels) (scatter_group lib X_scaled kmeans_labels)"
  from assms obtain u where
    r1: "result (perform lib Figure n) = Inr u"
    and r2: "result (and_then ?loop (\<lambda>_. performs lib ?cs) (figures (perform lib Figure n))) = Inr ()"
    and f1: "figures (plot_clusters_scatter lib X_scaled y kmeans_labels output_path n)
            = figures (and_then ?loop (\<lambda>_. performs lib ?cs) (figures (perform lib Figure n)))"
    unfolding plot_clusters_scatter_def by (rule and_then_Inr) simp
  from r1 have o: "figures (perform lib Figure n) = Suc n"
    by (simp add: perform_def split: option.splits)
  have l: "figures (?loop m) = m" for m
    by (rule figures_for_each) (rule figures_scatter_group)
  from r2 obtain v where
    r3: "result (performs lib ?cs (figures (?loop (Suc n)))) = Inr ()"
    and f2: "figures (and_then ?loop (\<lambda>_. performs lib ?cs) (Suc n))
            = figures (performs lib ?cs (figures (?loop (Suc n))))"
    unfolding o by (rule and_then_Inr) simp
  from r3 have r3': "result (performs lib ?cs (Suc n)) = Inr ()" by (simp only: l)
  have "fold effect ?cs (Suc n) = n"
    using fold_effect_tail[of output_path n] by simp
  with performs_figures[OF r3'] f1 f2 o l show ?thesis
    by simp
qed

lemma simple_closes:
  assumes "result (plot_simple_clusters lib X_scaled y kmeans_labels output_path n) = Inr ()"
  shows "figures (plot_simple_clusters lib X_scaled y kmeans_labels output_path n) = n"
proof -
  let ?tail = "performs lib ([Set_limits] @ save_or_show output_path @ [Close])"
  let ?loop = "for_each (take 2 (unique kmeans_labels)) (draw_cluster lib X_scaled kmeans_labels)"
  let ?k3 = "and_then (lift (column_bounds X_scaled)) (\<lambda>_. ?tail)"
  let ?k2 = "and_then (performs lib [Style_axes, Axis_arrows, Clear_ticks]) (\<lambda>_. ?k3)"
  let ?k1 = "and_then ?loop (\<lambda>_. ?k2)"
  have l: "figures (?loop m) = m" for m
    by (rule figures_for_each) (rule figures_draw_cluster)
  have s: "figures (performs lib [Style_axes, Axis_arrows, Clear_ticks] m) = m" for m
    by (rule figures_performs_neutral) simp
  from assms obtain u where
    r0: "result (performs lib [Subplots, Set_facecolor] n) = Inr u"
    and r1: "result (?k1 (figures (performs lib [Subplots, Set_facecolor] n))) = Inr ()"
    and f1: "figures (plot_simple_clusters lib X_scaled y kmeans_labels output_path n)
            = figures (?k1 (figures (performs lib [Subplots, Set_facecolor] n)))"
    unfolding plot_simple_clusters_def by (rule and_then_Inr) simp
  from performs_figures[OF r0] have o: "figures (performs lib [Subplots, Set_facecolor] n) = Suc n"
    by simp
  from r1 obtain v where
    r2: "result (?k2 (figures (?loop (Suc n)))) = Inr ()"
    and f2: "figures (?k1 (Suc n)) = figures (?k2 (figures (?loop (Suc n))))"
    unfolding o by (rule and_then_Inr) simp
  from r2 obtain w where
    r3: "result (?k3 (figures (performs lib [Style_axes, Axis_arrows, Clear_ticks] (Suc n)))) = Inr ()"
    and f3: "figures (?k2 (Suc n)) = figures (?k3 (figures (performs lib [Style_axes, Axis_arrows, Clear_ticks] (Suc n))))"
    unfolding l by (rule and_then_Inr) simp
  from r3 obtain z where
    r4: "result (?tail (figures (lift (column_bounds X_scaled) (Suc n)))) = Inr ()"
    and f4: "figures (?k3 (Suc n)) = figures (?tail (figures (lift (column_bounds X_scaled) (Suc n))))"
    unfolding s by (rule and_then_Inr) simp
  from r4 have r5: "result (?tail (Suc n)) = Inr ()" by simp
  have "fold effect ([Set_limits] @ save_or_show output_path @ [Close]) (Suc n) = n"
    using fold_effect_tail[of output_path n] by simp
  with performs_figures[OF r5] have "figures (?tail (Suc n)) = n" by simp
  with f1 f2 f3 f4 o l s show ?thesis by simp
qed

text \<open>
  C3, amended: each of the three chart operations, when it completes normally, leaves as
  many figures open as it found: the figure it opened is closed again.
\<close>

theorem charts_close_on_completion:
  "(result (plot_combined_boundaries lib log_reg kmeans X_scaled y output_path n) = Inr ()
      \<longrightarrow> figures (plot_combined_boundaries lib log_reg kmeans X_scaled y output_path n) = n)
   \<and> (result (plot_clusters_scatter lib X_scaled y kmeans_labels output_path n) = Inr ()
      \<longrightarrow> figures (plot_clusters_scatter lib X_scaled y kmeans_labels output_path n) = n)
   \<and> (result (plot_simple_clusters lib X_scaled y kmeans_labels output_path n) = Inr ()
      \<longrightarrow> figures (plot_simple_clusters lib X_scaled y kmeans_labels output_path n) = n)"
  by (intro conjI impI combined_closes scatter_closes simple_closes)

theorem charts_close_on_completion_witness:
  "result (plot_combined_boundaries quiet_env () () [[0, 0], [4, 4]] [0, 1] (Some ''a.png'') 3) = Inr ()
   \<and> figures (plot_combined_boundaries quiet_env () () [[0, 0], [4, 4]] [0, 1] (Some ''a.png'') 3) = 3
   \<and> result (plot_clusters_scatter quiet_env [[0, 0], [4, 4]] [0, 1] [0, 1] (Some ''b.png'') 3) = Inr ()
   \<and> figures (plot_clusters_scatter quiet_env [[0, 0], [4, 4]] [0, 1] [0, 1] (Some ''b.png'') 3) = 3
   \<and> result (plot_simple_clusters quiet_env [[0, 0], [4, 4]] [0, 1] [0, 1] (Some ''c.png'') 3) = Inr ()
   \<and> figures (plot_simple_clusters quiet_env [[0, 0], [4, 4]] [0, 1] [0, 1] (Some ''c.png'') 3) = 3"
proof -
  have a: "result (plot_combined_boundaries quiet_env () () [[0, 0], [4, 4]] [0, 1] (Some ''a.png'') 3) = Inr ()"
    by code_simp
  have b: "result (plot_clusters_scatter quiet_env [[0, 0], [4, 4]] [0, 1] [0, 1] (Some ''b.png'') 3) = Inr ()"
    by code_simp
  have c: "result (plot_simple_clusters quiet_env [[0, 0], [4, 4]] [0, 1] [0, 1] (Some ''c.png'') 3) = Inr ()"
    by code_simp
  show ?thesis
    using a b c
      charts_close_on_completion
        [where lib = quiet_env and log_reg = "()" and kmeans = "()" and X_scaled = "[[0, 0], [4, 4]]"
           and y = "[0, 1]" and kmeans_labels = "[0, 1]" and n = 3 and output_path = "Some ''a.png''"]
      charts_close_on_completion
        [where lib = quiet_env and log_reg = "()" and kmeans = "()" and X_scaled = "[[0, 0], [4, 4]]"
           and y = "[0, 1]" and kmeans_labels = "[0, 1]" and n = 3 and output_path = "Some ''b.png''"]
      charts_close_on_completion
        [where lib = quiet_env and log_reg = "()" and kmeans = "()" and X_scaled = "[[0, 0], [4, 4]]"
           and y = "[0, 1]" and kmeans_labels = "[0, 1]" and n = 3 and output_path = "Some ''c.png''"]
    by blast
qed

text \<open>
  C3 as stated fails: \<open>plt.close()\<close> is the last statement, outside any \<open>finally\<close>.
  With a backend that cannot write the image file, each of the three chart operations
  ends with the exception of \<open>savefig\<close> and its figure still open.
\<close>

theorem figure_left_open_counterexample:
  "result (plot_combined_boundaries unwritable_env () () [[0, 0], [4, 4]] [0, 1] (Some ''a.png'') 0)
     = Inl BackendError
   \<and> figures (plot_combined_boundaries unwritable_env () () [[0, 0], [4, 4]] [0, 1] (Some ''a.png'') 0) = 1
   \<and> result (plot_clusters_scatter unwritable_env [[0, 0], [4, 4]] [0, 1] [0, 1] (Some ''b.png'') 0)
     = Inl BackendError
   \<and> figures (plot_clusters_scatter unwritable_env [[0, 0], [4, 4]] [0, 1] [0, 1] (Some ''b.png'') 0) = 1
   \<and> result (plot_simple_clusters unwritable_env [[0, 0], [4, 4]] [0, 1] [0, 1] (Some ''c.png'') 0)
     = Inl BackendError
   \<and> figures (plot_simple_clusters unwritable_env [[0, 0], [4, 4]] [0, 1] [0, 1] (Some ''c.png'') 0) = 1"
  by code_simp

subsection \<open>The outline of a small cluster\<close>

lemma calls_simple [simp]:
  "calls (ret x n) = []" "calls (raise e n) = []" "calls (lift r n) = []"
  by (simp_all add: ret_def raise_def lift_def)

lemma calls_try [simp]: "calls (try_except_pass act n) = calls (act n)"
  by (simp add: try_except_pass_def)

lemma calls_and_then_all:
  assumes "\<And>n. list_all P (calls (act n))" and "\<And>x n. list_all P (calls (f x n))"
  shows "list_all P (calls (and_then act f n))"
  using assms by (simp add: and_then_def Let_def split: sum.splits)

lemma calls_perform_all: "P c \<Longrightarrow> list_all P (calls (perform lib c n))"
  by (simp add: perform_def split: option.splits)

lemma calls_performs_all: "list_all P cs \<Longrightarrow> list_all P (calls (performs lib cs n))"
proof (induction cs arbitrary: n)
  case Nil
  then show ?case by (simp add: performs.simps)
next
  case (Cons c cs)
  show ?case unfolding performs.simps
    by (rule calls_and_then_all) (use Cons in \<open>simp_all add: calls_perform_all\<close>)
qed

lemma calls_for_each_all:
  assumes "\<And>x n. list_all P (calls (body x n))"
  shows "list_all P (calls (for_each xs body n))"
proof (induction xs arbitrary: n)
  case Nil
  then show ?case by (simp add: for_each.simps)
next
  case (Cons x xs)
  show ?case unfolding for_each.simps
    by (rule calls_and_then_all) (simp_all add: assms Cons)
qed

lemma sum_mask: "length (filter id (map (\<lambda>x. x = c) labels)) = count_list labels c"
  by (induction labels) auto

lemma hull_outline_calls:
  "cluster_id \<noteq> c \<Longrightarrow> list_all (\<lambda>k. \<not> outline_of c k) (calls (hull_outline lib points cluster_id n))"
  unfolding hull_outline_def
  apply (rule calls_and_then_all)
   apply simp
  apply (rule calls_and_then_all)
   apply (rule calls_performs_all)
   apply (simp add: list_all_iff)
  apply (simp split: list.splits add: calls_perform_all)
  done

lemma draw_cluster_calls:
  assumes "count_list kmeans_labels c \<le> 2"
  shows "list_all (\<lambda>k. \<not> outline_of c k) (calls (draw_cluster lib X_scaled kmeans_labels cluster_id n))"
proof (cases "cluster_id = c")
  case True
  with assms have small: "\<not> 2 < length (filter id (map (\<lambda>x. x = cluster_id) kmeans_labels))"
    using sum_mask[of c kmeans_labels] by simp
  show ?thesis
    unfolding draw_cluster_def Let_def
    apply (rule calls_and_then_all)
     apply simp
    apply (rule calls_and_then_all)
     apply (rule calls_perform_all)
     apply simp
    apply (simp only: small if_False calls_simple list.pred_inject)
    done
next
  case False
  show ?thesis
    unfolding draw_cluster_def Let_def
    apply (rule calls_and_then_all)
     apply simp
    apply (rule calls_and_then_all)
     apply (rule calls_perform_all)
     apply simp
    apply (simp add: hull_outline_calls[OF False])
    done
qed

lemma simple_no_outline:
  assumes "count_list kmeans_labels c \<le> 2"
  shows "list_all (\<lambda>k. \<not> outline_of c k)
           (calls (plot_simple_clusters lib X_scaled y kmeans_labels output_path n))"
  unfolding plot_simple_clusters_def
  apply (rule calls_and_then_all)
   apply (rule calls_performs_all)
   apply simp
  apply (rule calls_and_then_all)
   apply (rule calls_for_each_all)
   apply (rule draw_cluster_calls[OF assms])
  apply (rule calls_and_then_all)
   apply (rule calls_performs_all)
   apply simp
  apply (rule calls_and_then_all)
   apply simp
  apply (rule calls_performs_all)
  apply (simp add: save_or_show_def split: option.splits)
  done

lemma result_and_then_unit:
  assumes "\<And>n. result (act n) = Inr ()" and "\<And>n. result (f () n) = Inr ()"
  shows "result (and_then act f n) = Inr ()"
  using assms by (simp add: and_then_def Let_def)

lemma result_performs_ok:
  "list_all (\<lambda>c. backend lib c = None) cs \<Longrightarrow> result (performs lib cs n) = Inr ()"
proof (induction cs arbitrary: n)
  case Nil
  then show ?case by (simp add: performs.simps ret_def)
next
  case (Cons c cs)
  show ?case unfolding performs.simps
    by (rule result_and_then_unit) (use Cons in \<open>simp_all add: perform_def\<close>)
qed

lemma result_for_each_ok:
  assumes "\<And>x n. result (body x n) = Inr ()"
  shows "result (for_each xs body n) = Inr ()"
proof (induction xs arbitrary: n)
  case Nil
  then show ?case by (simp add: for_each.simps ret_def)
next
  case (Cons x xs)
  show ?case unfolding for_each.simps
    by (rule result_and_then_unit) (simp_all add: assms Cons)
qed

lemma draw_cluster_ok:
  assumes "length kmeans_labels = length X_scaled"
    and "backend lib (Scatter_cluster cluster_id (cluster_color cluster_id)) = None"
  shows "result (draw_cluster lib X_scaled kmeans_labels cluster_id n) = Inr ()"
  using assms
  by (simp add: draw_cluster_def Let_def and_then_def lift_def bool_index_def perform_def
      try_except_pass_def ret_def)

lemma simple_completes:
  assumes ok: "\<forall>k. \<not> is_outline k \<longrightarrow> backend lib k = None"
    and ne: "X_scaled \<noteq> []"
    and len: "length kmeans_labels = length X_scaled"
  shows "result (plot_simple_clusters lib X_scaled y kmeans_labels output_path n) = Inr ()"
  unfolding plot_simple_clusters_def
  apply (rule result_and_then_unit)
   apply (rule result_performs_ok)
   apply (simp add: ok)
  apply (rule result_and_then_unit)
   apply (rule result_for_each_ok)
   apply (rule draw_cluster_ok[OF len])
   apply (simp add: ok)
  apply (rule result_and_then_unit)
   apply (rule result_performs_ok)
   apply (simp add: ok)
  apply (rule result_and_then_unit)
   apply (simp add: lift_def column_bounds_def ne)
  apply (rule result_performs_ok)
  apply (simp add: ok save_or_show_def split: option.splits)
  done

text \<open>
  C8: in the simplified two-cluster chart no hull outline is drawn for a cluster with at
  most two members, whatever the backend and the hull computation do; and the chart
  completes without an exception whenever the data is well formed and no call outside
  the \<open>try\<close> block raises, whether or not a hull is computed or fails.
\<close>

theorem small_cluster_has_no_outline:
  "(count_list kmeans_labels c \<le> 2
      \<longrightarrow> list_all (\<lambda>k. \<not> outline_of c k)
            (calls (plot_simple_clusters lib X_scaled y kmeans_labels output_path n)))
   \<and> ((\<forall>k. \<not> is_outline k \<longrightarrow> backend lib k = None)
        \<and> X_scaled \<noteq> [] \<and> length kmeans_labels = length X_scaled
      \<longrightarrow> result (plot_simple_clusters lib X_scaled y kmeans_labels output_path n) = Inr ())"
  by (intro conjI impI simple_no_outline simple_completes) simp_all

theorem small_cluster_has_no_outline_witness:
  "count_list [0, 0, 1, 1, 1 :: nat] 0 \<le> 2
   \<and> [[0, 0], [0, 1], [4, 4], [4, 5], [5, 4]] \<noteq> ([] :: vec list)
   \<and> length [0, 0, 1, 1, 1 :: nat] = length [[0, 0], [0, 1], [4, 4], [4, 5], [5, 4 :: rat]]
   \<and> list_all (\<lambda>k. \<not> outline_of 0 k)
        (calls (plot_simple_clusters quiet_env [[0, 0], [0, 1], [4, 4], [4, 5], [5, 4]]
                  [0, 0, 1, 1, 1] [0, 0, 1, 1, 1] (Some ''c.png'') 0))
   \<and> result (plot_simple_clusters quiet_env [[0, 0], [0, 1], [4, 4], [4, 5], [5, 4]]
                  [0, 0, 1, 1, 1] [0, 0, 1, 1, 1] (Some ''c.png'') 0) = Inr ()
   \<and> Plot_closed 1 [0, 1, 2, 0]
        \<in> set (calls (plot_simple_clusters quiet_env [[0, 0], [0, 1], [4, 4], [4, 5], [5, 4]]
                  [0, 0, 1, 1, 1] [0, 0, 1, 1, 1] (Some ''c.png'') 0))"
proof -
  have h1: "count_list [0, 0, 1, 1, 1 :: nat] 0 \<le> 2" by simp
  have h2: "\<forall>k. \<not> is_outline k \<longrightarrow> backend quiet_env k = None"
    by (simp add: quiet_env_def)
  have h3: "[[0, 0], [0, 1], [4, 4], [4, 5], [5, 4]] \<noteq> ([] :: vec list)" by simp
  have h4: "length [0, 0, 1, 1, 1 :: nat] = length [[0, 0], [0, 1], [4, 4], [4, 5], [5, 4 :: rat]]"
    by simp
  have drawn: "Plot_closed 1 [0, 1, 2, 0]
        \<in> set (calls (plot_simple_clusters quiet_env [[0, 0], [0, 1], [4, 4], [4, 5], [5, 4]]
                  [0, 0, 1, 1, 1] [0, 0, 1, 1, 1] (Some ''c.png'') 0))"
    by code_simp
  show ?thesis
    using h1 h2 h3 h4 drawn
      small_cluster_has_no_outline
        [where kmeans_labels = "[0, 0, 1, 1, 1]" and c = 0 and lib = quiet_env
           and X_scaled = "[[0, 0], [0, 1], [4, 4], [4, 5], [5, 4]]" and y = "[0, 0, 1, 1, 1]"
           and output_path = "Some ''c.png''" and n = 0]
    by blast
qed

section \<open>The data loader\<close>

lemma split_indices_partition:
  assumes "distinct (perm (Seeded s) n)" and "set (perm (Seeded s) n) = {..<n}"
  shows "distinct (fst (split_indices perm n f (Some s) g) @ snd (split_indices perm n f (Some s) g))"
    and "set (fst (split_indices perm n f (Some s) g)) \<union> set (snd (split_indices perm n f (Some s) g)) = {..<n}"
    and "set (fst (split_indices perm n f (Some s) g)) \<inter> set (snd (split_indices perm n f (Some s) g)) = {}"
proof -
  let ?p = "perm (Seeded s) n"
  let ?k = "nat \<lceil>f * of_nat n\<rceil>"
  have fs: "fst (split_indices perm n f (Some s) g) = drop ?k ?p"
    "snd (split_indices perm n f (Some s) g) = take ?k ?p"
    by (simp_all add: split_indices_def Let_def)
  have disj: "set (take ?k ?p) \<inter> set (drop ?k ?p) = {}"
    by (rule set_take_disj_set_drop_if_distinct[OF assms(1)]) simp
  have dt: "distinct (take ?k ?p)" and dd: "distinct (drop ?k ?p)"
    using assms(1) by simp_all
  from disj dt dd
  show "distinct (fst (split_indices perm n f (Some s) g) @ snd (split_indices perm n f (Some s) g))"
    unfolding fs distinct_append by blast
  have "set (take ?k ?p) \<union> set (drop ?k ?p) = set ?p"
    by (metis append_take_drop_id set_append)
  then show "set (fst (split_indices perm n f (Some s) g)) \<union> set (snd (split_indices perm n f (Some s) g)) = {..<n}"
    unfolding fs using assms(2) by blast
  from disj show "set (fst (split_indices perm n f (Some s) g)) \<inter> set (snd (split_indices perm n f (Some s) g)) = {}"
    unfolding fs by blast
qed

lemma train_test_split_indices:
  assumes "train_test_split perm X y f seed g = Inr (X_train, X_test, y_train, y_test)"
  shows "X_train = map (nth X) (fst (split_indices perm (length X) f seed g))
       \<and> X_test = map (nth X) (snd (split_indices perm (length X) f seed g))
       \<and> y_train = map (nth y) (fst (split_indices perm (length X) f seed g))
       \<and> y_test = map (nth y) (snd (split_indices perm (length X) f seed g))"
  using assms
  by (auto simp: train_test_split_def Let_def split: if_splits prod.splits)

subsection \<open>The split is determined by the seed\<close>

text \<open>
  C4: the loader passes its seed to the split, so the partition is a function of the
  seed, the fraction and the input alone: two runs that find the process-wide generator
  in different states produce the same partition (or the same error).
\<close>

theorem split_ignores_process_state:
  "split_stage lib loader X_scaled y g1 = split_stage lib loader X_scaled y g2"
  by (simp add: split_stage_def train_test_split_def split_indices_def)

theorem split_ignores_process_state_witness:
  "split_stage quiet_env (DigitsDataLoader_init 2 (3 / 10) 42) [[0, 0], [0, 1], [4, 4], [4, 5]] [0, 0, 1, 1] 0
     = split_stage quiet_env (DigitsDataLoader_init 2 (3 / 10) 42) [[0, 0], [0, 1], [4, 4], [4, 5]] [0, 0, 1, 1] 7
   \<and> split_stage quiet_env (DigitsDataLoader_init 2 (3 / 10) 42) [[0, 0], [0, 1], [4, 4], [4, 5]] [0, 0, 1, 1] 7
     = Inr ([[0, 1], [0, 0]], [[4, 5], [4, 4]], [0, 0], [1, 1])"
proof -
  have v: "split_stage quiet_env (DigitsDataLoader_init 2 (3 / 10) 42) [[0, 0], [0, 1], [4, 4], [4, 5]] [0, 0, 1, 1] 7
     = Inr ([[0, 1], [0, 0]], [[4, 5], [4, 4]], [0, 0], [1, 1])"
    by code_simp
  show ?thesis
    using v split_ignores_process_state
      [of quiet_env "DigitsDataLoader_init 2 (3 / 10) 42" "[[0, 0], [0, 1], [4, 4], [4, 5]]" "[0, 0, 1, 1]" 0 7]
    by simp
qed

subsection \<open>Train and test partition the reduced dataset\<close>

text \<open>
  C5: for a reduced dataset with one label per sample, a fraction strictly between 0 and
  1 that leaves the train part non-empty, and a shuffle that returns a permutation of
  the indices, the split returns the samples at the train indices and the samples at the
  test indices, and these index lists contain every index of the dataset exactly once
  and share none.
\<close>

theorem split_is_a_partition:
  assumes len: "length X_scaled = length y"
    and frac: "0 < test_size loader" "test_size loader < 1"
    and room: "nat \<lceil>test_size loader * of_nat (length X_scaled)\<rceil> < length X_scaled"
    and perm: "distinct (permutation lib (Seeded (random_state loader)) (length X_scaled))"
      "set (permutation lib (Seeded (random_state loader)) (length X_scaled)) = {..<length X_scaled}"
  shows "\<exists>train_idx test_idx.
           split_stage lib loader X_scaled y g
             = Inr (map (nth X_scaled) train_idx, map (nth X_scaled) test_idx, map (nth y) train_idx, map (nth y) test_idx)
           \<and> distinct (train_idx @ test_idx)
           \<and> set train_idx \<union> set test_idx = {..<length X_scaled}
           \<and> set train_idx \<inter> set test_idx = {}"
proof -
  let ?ix = "split_indices (permutation lib) (length X_scaled) (test_size loader)
               (Some (random_state loader)) g"
  have "split_stage lib loader X_scaled y g
          = Inr (map (nth X_scaled) (fst ?ix), map (nth X_scaled) (snd ?ix),
                 map (nth y) (fst ?ix), map (nth y) (snd ?ix))"
    using len frac room
    by (simp add: split_stage_def train_test_split_def Let_def case_prod_unfold)
  with split_indices_partition
         [where perm = "permutation lib" and s = "random_state loader" and n = "length X_scaled"
            and f = "test_size loader" and g = g, OF perm]
  show ?thesis
    by blast
qed

theorem split_is_a_partition_witness:
  "length [[0, 0], [0, 1], [4, 4], [4, 5 :: rat]] = length [0, 0, 1, 1 :: int]
   \<and> 0 < test_size (DigitsDataLoader_init 2 (3 / 10) 42)
   \<and> test_size (DigitsDataLoader_init 2 (3 / 10) 42) < 1
   \<and> nat \<lceil>test_size (DigitsDataLoader_init 2 (3 / 10) 42) * of_nat (length [[0, 0], [0, 1], [4, 4], [4, 5 :: rat]])\<rceil>
       < length [[0, 0], [0, 1], [4, 4], [4, 5 :: rat]]
   \<and> distinct (permutation quiet_env (Seeded (random_state (DigitsDataLoader_init 2 (3 / 10) 42)))
                 (length [[0, 0], [0, 1], [4, 4], [4, 5 :: rat]]))
   \<and> set (permutation quiet_env (Seeded (random_state (DigitsDataLoader_init 2 (3 / 10) 42)))
            (length [[0, 0], [0, 1], [4, 4], [4, 5 :: rat]]))
       = {..<length [[0, 0], [0, 1], [4, 4], [4, 5 :: rat]]}
   \<and> (\<exists>train_idx test_idx.
         split_stage quiet_env (DigitsDataLoader_init 2 (3 / 10) 42) [[0, 0], [0, 1], [4, 4], [4, 5]] [0, 0, 1, 1] 0
           = Inr (map (nth [[0, 0], [0, 1], [4, 4], [4, 5]]) train_idx,
                  map (nth [[0, 0], [0, 1], [4, 4], [4, 5]]) test_idx,
                  map (nth [0, 0, 1, 1]) train_idx, map (nth [0, 0, 1, 1]) test_idx)
         \<and> distinct (train_idx @ test_idx)
         \<and> set train_idx \<union> set test_idx = {..<length [[0, 0], [0, 1], [4, 4], [4, 5 :: rat]]}
         \<and> set train_idx \<inter> set test_idx = {})"
proof -
  let ?loader = "DigitsDataLoader_init 2 (3 / 10) 42"
  let ?X = "[[0, 0], [0, 1], [4, 4], [4, 5 :: rat]]"
  have h1: "length ?X = length [0, 0, 1, 1 :: int]" by simp
  have h2: "0 < test_size ?loader" and h3: "test_size ?loader < 1"
    by (simp_all add: DigitsDataLoader_init_def)
  have h4: "nat \<lceil>test_size ?loader * of_nat (length ?X)\<rceil> < length ?X"
    by code_simp
  have h5: "distinct (permutation quiet_env (Seeded (random_state ?loader)) (length ?X))"
    by (simp add: quiet_env_def)
  have "set (permutation quiet_env src k) = {..<k}" for src k
    by (simp add: quiet_env_def atLeast0LessThan)
  then have h6: "set (permutation quiet_env (Seeded (random_state ?loader)) (length ?X)) = {..<length ?X}" .
  from split_is_a_partition[OF h1 h2 h3 h4 h5 h6, of 0] h1 h2 h3 h4 h5 h6
  show ?thesis by blast
qed

subsection \<open>A test fraction outside the open unit interval\<close>

text \<open>
  C6: when the test fraction is not strictly between 0 and 1 (0 and 1 included), the
  split of a dataset with one label per sample fails with InvalidConfiguration, the split
  returns no partition for any input, and neither does \<open>load_data\<close>.
\<close>

theorem split_rejects_bad_fraction:
  assumes "\<not> (0 < test_size loader \<and> test_size loader < 1)"
  shows "(length X_scaled = length y \<longrightarrow> split_stage lib loader X_scaled y g = Inl InvalidConfiguration)
         \<and> (\<forall>parts. split_stage lib loader X_scaled y g \<noteq> Inr parts)
         \<and> (\<forall>parts. load_data lib loader g \<noteq> Inr parts)"
proof -
  have a: "split_stage lib loader X y g = Inl InvalidConfiguration" if "length X = length y" for X y
    using assms that by (simp add: split_stage_def train_test_split_def)
  have b: "split_stage lib loader X y g \<noteq> Inr parts" for X y parts
    using assms by (simp add: split_stage_def train_test_split_def)
  have c: "load_data lib loader g \<noteq> Inr parts" for parts
    using b by (auto simp: load_data_def Let_def split: sum.splits prod.splits)
  from a b c show ?thesis by blast
qed

theorem split_rejects_bad_fraction_witness:
  "\<not> (0 < test_size (DigitsDataLoader_init 2 1 42) \<and> test_size (DigitsDataLoader_init 2 1 42) < 1)
   \<and> length [[0, 0], [0, 1], [4, 4], [4, 5 :: rat]] = length [0, 0, 1, 1 :: int]
   \<and> split_stage quiet_env (DigitsDataLoader_init 2 1 42) [[0, 0], [0, 1], [4, 4], [4, 5]] [0, 0, 1, 1] 0
       = Inl InvalidConfiguration
   \<and> (\<forall>parts. split_stage quiet_env (DigitsDataLoader_init 2 1 42) [[0, 0], [0, 1], [4, 4], [4, 5]] [0, 0, 1, 1] 0
         \<noteq> Inr parts)
   \<and> (\<forall>parts. load_data quiet_env (DigitsDataLoader_init 2 1 42) 0 \<noteq> Inr parts)
   \<and> load_data quiet_env (DigitsDataLoader_init 2 0 42) 0 = Inl InvalidConfiguration"
proof -
  have h: "\<not> (0 < test_size (DigitsDataLoader_init 2 1 42) \<and> test_size (DigitsDataLoader_init 2 1 42) < 1)"
    by (simp add: DigitsDataLoader_init_def)
  have z: "load_data quiet_env (DigitsDataLoader_init 2 0 42) 0 = Inl InvalidConfiguration"
    by code_simp
  from split_rejects_bad_fraction
    [OF h, of "[[0, 0], [0, 1], [4, 4], [4, 5]]" "[0, 0, 1, 1]" quiet_env 0] h z
  show ?thesis by simp
qed

subsection \<open>A component count out of range\<close>

text \<open>
  C7: when the component count is below 1 or above the raw feature dimension of the
  loaded dataset, the reduction fails with InvalidConfiguration, so does \<open>load_data\<close>,
  and the driver ends with that error before any call is made: no estimator is fitted.
\<close>

theorem reducer_rejects_bad_component_count:
  assumes "load_digits lib = Inr (X, y)"
    and "n_components loader < 1 \<or> int (feature_dim X) < n_components loader"
  shows "pca_fit_transform (project lib) (n_components loader) X = Inl InvalidConfiguration
         \<and> load_data lib loader g = Inl InvalidConfiguration
         \<and> main_steps lib loader g timestamp n = \<lparr>result = Inl InvalidConfiguration, calls = [], figures = n\<rparr>"
proof -
  have a: "pca_fit_transform (project lib) (n_components loader) X = Inl InvalidConfiguration"
    using assms(2) by (auto simp: pca_fit_transform_def)
  have b: "load_data lib loader g = Inl InvalidConfiguration"
    by (simp add: load_data_def assms(1) a)
  have c: "main_steps lib loader g timestamp n = \<lparr>result = Inl InvalidConfiguration, calls = [], figures = n\<rparr>"
    by (simp add: main_steps_def Let_def and_then_def lift_def b)
  from a b c show ?thesis by blast
qed

theorem reducer_rejects_bad_component_count_witness:
  "load_digits quiet_env
     = Inr ([[0, 0], [0, 1], [1, 0], [4, 4], [4, 5], [5, 4], [5, 5]], [0, 0, 0, 1, 1, 1, 1])
   \<and> (n_components (DigitsDataLoader_init 3 (3 / 10) 42) < 1
       \<or> int (feature_dim [[0, 0], [0, 1], [1, 0], [4, 4], [4, 5], [5, 4], [5, 5]])
           < n_components (DigitsDataLoader_init 3 (3 / 10) 42))
   \<and> pca_fit_transform (project quiet_env) (n_components (DigitsDataLoader_init 3 (3 / 10) 42))
        [[0, 0], [0, 1], [1, 0], [4, 4], [4, 5], [5, 4], [5, 5]] = Inl InvalidConfiguration
   \<and> load_data quiet_env (DigitsDataLoader_init 3 (3 / 10) 42) 0 = Inl InvalidConfiguration
   \<and> main_steps quiet_env (DigitsDataLoader_init 3 (3 / 10) 42) 0 ''t'' 0
       = \<lparr>result = Inl InvalidConfiguration, calls = [], figures = 0\<rparr>"
proof -
  have h1: "load_digits quiet_env
     = Inr ([[0, 0], [0, 1], [1, 0], [4, 4], [4, 5], [5, 4], [5, 5]], [0, 0, 0, 1, 1, 1, 1])"
    by (simp add: quiet_env_def)
  have h2: "n_components (DigitsDataLoader_init 3 (3 / 10) 42) < 1
       \<or> int (feature_dim [[0, 0], [0, 1], [1, 0], [4, 4], [4, 5], [5, 4], [5, 5]])
           < n_components (DigitsDataLoader_init 3 (3 / 10) 42)"
    by (simp add: DigitsDataLoader_init_def feature_dim_def)
  from reducer_rejects_bad_component_count[OF h1 h2, of 0 "''t''" 0] h1 h2
  show ?thesis by blast
qed

section \<open>The evaluation driver\<close>

lemma and_then_result_iff:
  "result (and_then act f n) = Inr x \<longleftrightarrow>
     (\<exists>v. result (act n) = Inr v \<and> result (f v (figures (act n))) = Inr x)"
  by (auto simp: and_then_def Let_def split: sum.splits)

lemma result_simple [simp]:
  "result (lift r n) = r" "result (logged c r n) = r" "result (ret x n) = Inr x"
  by (simp_all add: lift_def logged_def ret_def)

text \<open>
  C10: when \<open>main\<close> completes, the reported score of the clusterer is its accuracy on
  the train part, the points it was fitted on, and the reported score of the classifier
  is its accuracy on the test part; the two parts are taken at disjoint sets of indices
  of the reduced dataset (the shuffle being a permutation).
\<close>

theorem scores_use_train_and_test:
  assumes fin: "result (main lib g timestamp n) = Inr rep"
    and perm: "\<And>k. distinct (permutation lib (Seeded 42) k)"
      "\<And>k. set (permutation lib (Seeded 42) k) = {..<k}"
  shows "\<exists>X_train X_test y_train y_test X_scaled y log_reg kmeans train_idx test_idx.
           load_data lib (DigitsDataLoader_init 2 (3 / 10) 42) g
             = Inr (X_train, X_test, y_train, y_test, X_scaled, y)
           \<and> classifier_train (lr_fit lib) LogisticRegressionClassifier_init X_train y_train = Inr log_reg
           \<and> train (kmeans_fit lib) (KMeansClusterer_init 10 42) X_train = Inr kmeans
           \<and> classifier_accuracy log_reg X_test y_test = Inr (acc_lr rep)
           \<and> accuracy kmeans X_train y_train = Inr (acc_km rep)
           \<and> X_train = map (nth X_scaled) train_idx \<and> y_train = map (nth y) train_idx
           \<and> X_test = map (nth X_scaled) test_idx \<and> y_test = map (nth y) test_idx
           \<and> set train_idx \<inter> set test_idx = {}"
proof -
  let ?loader = "DigitsDataLoader_init 2 (3 / 10) 42"
  from fin obtain parts where ld: "load_data lib ?loader g = Inr parts"
    and rest: "result ((case parts of (X_train, X_test, y_train, y_test, X_scaled, y) \<Rightarrow>
      and_then (logged Fit_classifier
                  (classifier_train (lr_fit lib) LogisticRegressionClassifier_init X_train y_train)) (\<lambda>log_reg.
      and_then (lift (classifier_accuracy log_reg X_test y_test)) (\<lambda>acc_lr'.
      and_then (logged Fit_clusterer
                  (train (kmeans_fit lib) (KMeansClusterer_init 10 42) X_train)) (\<lambda>kmeans.
      and_then (lift (accuracy kmeans X_train y_train)) (\<lambda>acc_km'.
      and_then (lift (predict kmeans X_scaled)) (\<lambda>kmeans_labels.
      and_then (plot_combined_boundaries lib log_reg kmeans X_scaled y
                  (Some (''output/classification_comparison_'' @ timestamp @ ''.png''))) (\<lambda>_.
      and_then (plot_clusters_scatter lib X_scaled y kmeans_labels
                  (Some (''output/clusters_scatter_'' @ timestamp @ ''.png''))) (\<lambda>_.
      and_then (plot_simple_clusters lib X_scaled y kmeans_labels
                  (Some (''output/clusters_simple_'' @ timestamp @ ''.png''))) (\<lambda>_.
      and_then (perform lib (Write_report (''output/results_'' @ timestamp @ ''.txt''))) (\<lambda>_.
        ret \<lparr>total_samples = length X_scaled, train_samples = length X_train,
             test_samples = length X_test, acc_lr = acc_lr', acc_km = acc_km',
             chart_path = ''output/classification_comparison_'' @ timestamp @ ''.png''\<rparr>)))))))))) n)
        = Inr rep"
    unfolding main_def main_steps_def Let_def and_then_result_iff[of "lift _"]
    by (auto simp: )
  obtain X_train X_test y_train y_test X_scaled y
    where parts: "parts = (X_train, X_test, y_train, y_test, X_scaled, y)"
    by (cases parts) auto
  from rest[unfolded parts prod.case and_then_result_iff result_simple]
  obtain log_reg a_lr kmeans a_km where
    f1: "classifier_train (lr_fit lib) LogisticRegressionClassifier_init X_train y_train = Inr log_reg"
    and s1: "classifier_accuracy log_reg X_test y_test = Inr a_lr"
    and f2: "train (kmeans_fit lib) (KMeansClusterer_init 10 42) X_train = Inr kmeans"
    and s2: "accuracy kmeans X_train y_train = Inr a_km"
    and rp: "acc_lr rep = a_lr" "acc_km rep = a_km"
    by (auto simp: ret_def)
  from ld[unfolded parts] obtain X where
    sp: "split_stage lib ?loader X_scaled y g = Inr (X_train, X_test, y_train, y_test)"
    by (auto simp: load_data_def Let_def split: sum.splits prod.splits)
  let ?ix = "split_indices (permutation lib) (length X_scaled) (test_size ?loader)
               (Some (random_state ?loader)) g"
  from train_test_split_indices[OF sp[unfolded split_stage_def]]
  have ix: "X_train = map (nth X_scaled) (fst ?ix)" "X_test = map (nth X_scaled) (snd ?ix)"
    "y_train = map (nth y) (fst ?ix)" "y_test = map (nth y) (snd ?ix)"
    by simp_all
  have rs: "random_state ?loader = 42" by (simp add: DigitsDataLoader_init_def)
  have dj: "set (fst ?ix) \<inter> set (snd ?ix) = {}"
    unfolding rs
    by (rule split_indices_partition(3)
          [where perm = "permutation lib" and s = 42 and n = "length X_scaled", OF perm])
  from ld parts f1 f2 s1 s2 rp ix dj show ?thesis by blast
qed

theorem scores_use_train_and_test_witness:
  "result (main quiet_env 0 ''t'' 0)
     = Inr \<lparr>total_samples = 7, train_samples = 4, test_samples = 3,
            acc_lr = Fraction 1, acc_km = Fraction 1,
            chart_path = ''output/classification_comparison_t.png''\<rparr>
   \<and> (\<forall>k. distinct (permutation quiet_env (Seeded 42) k))
   \<and> (\<forall>k. set (permutation quiet_env (Seeded 42) k) = {..<k})
   \<and> (\<exists>X_train X_test y_train y_test X_scaled y log_reg kmeans train_idx test_idx.
           load_data quiet_env (DigitsDataLoader_init 2 (3 / 10) 42) 0
             = Inr (X_train, X_test, y_train, y_test, X_scaled, y)
           \<and> classifier_train (lr_fit quiet_env) LogisticRegressionClassifier_init X_train y_train = Inr log_reg
           \<and> train (kmeans_fit quiet_env) (KMeansClusterer_init 10 42) X_train = Inr kmeans
           \<and> classifier_accuracy log_reg X_test y_test = Inr (Fraction 1)
           \<and> accuracy kmeans X_train y_train = Inr (Fraction 1)
           \<and> X_train = map (nth X_scaled) train_idx \<and> y_train = map (nth y) train_idx
           \<and> X_test = map (nth X_scaled) test_idx \<and> y_test = map (nth y) test_idx
           \<and> set train_idx \<inter> set test_idx = {})"
proof -
  let ?rep = "\<lparr>total_samples = 7, train_samples = 4, test_samples = 3,
            acc_lr = Fraction 1, acc_km = Fraction 1,
            chart_path = ''output/classification_comparison_t.png''\<rparr>"
  have h1: "result (main quiet_env 0 ''t'' 0) = Inr ?rep"
    by code_simp
  have h2: "distinct (permutation quiet_env (Seeded 42) k)" for k
    by (simp add: quiet_env_def)
  have h3: "set (permutation quiet_env (Seeded 42) k) = {..<k}" for k
    by (simp add: quiet_env_def atLeast0LessThan)
  from scores_use_train_and_test[OF h1 h2 h3] h1 h2 h3
  show ?thesis by simp
qed

end
